theory Spec2Isabelle
  imports Main "HOL-Library.Word"
begin

section \<open>JavaScript strings\<close>

text \<open>
  A JavaScript string is a sequence of 16-bit code units; \<open>length\<close> and indexing count
  code units. ASCII literals of the source are written with \<open>str\<close>.
\<close>

type_synonym code_unit = "16 word"
type_synonym js_string = "code_unit list"

definition str :: "string \<Rightarrow> js_string" where
  "str s = map (\<lambda>c. of_nat (of_char c)) s"

text \<open>
  \<open>Number.prototype.toString\<close> on a non-negative integer (\<open>Date.now()\<close>, \<open>res.status\<close>):
  its decimal digits.
\<close>

definition digit :: "nat \<Rightarrow> code_unit" where
  "digit d = 0x30 + of_nat d"

function toString :: "nat \<Rightarrow> js_string" where
  "toString n = (if n < 10 then [digit n] else toString (n div 10) @ [digit (n mod 10)])"
  by pat_completeness auto
termination
  by (relation "measure (\<lambda>n. n)") auto

text \<open>
  \<open>String.prototype.trim\<close> strips the WhiteSpace and LineTerminator code units of
  ECMAScript from both ends.
\<close>

definition is_space :: "code_unit \<Rightarrow> bool" where
  "is_space c \<longleftrightarrow>
     c = 0x09 \<or> c = 0x0A \<or> c = 0x0B \<or> c = 0x0C \<or> c = 0x0D \<or> c = 0x20 \<or> c = 0xA0 \<or>
     c = 0x1680 \<or> (0x2000 \<le> c \<and> c \<le> 0x200A) \<or> c = 0x2028 \<or> c = 0x2029 \<or>
     c = 0x202F \<or> c = 0x205F \<or> c = 0x3000 \<or> c = 0xFEFF"

definition trim :: "js_string \<Rightarrow> js_string" where
  "trim s = rev (dropWhile is_space (rev (dropWhile is_space s)))"

section \<open>JSON\<close>

text \<open>
  \<open>JSON.stringify\<close> and \<open>JSON.parse\<close> belong to the platform, not to the repository;
  they are modelled after ECMA-262 (sections QuoteJSONString, SerializeJSONArray,
  SerializeJSONObject) and the JSON grammar of ECMA-404. A number keeps its lexeme: the
  session collection holds none.
\<close>

datatype json =
    JNull
  | JBool bool
  | JNumber js_string
  | JString js_string
  | JArray "json list"
  | JObject "(js_string \<times> json) list"

subsection \<open>Serialising\<close>

definition hexdigit :: "nat \<Rightarrow> code_unit" where
  "hexdigit d = (if d < 10 then 0x30 + of_nat d else 0x57 + of_nat d)"

definition unicode_escape :: "code_unit \<Rightarrow> js_string" where
  "unicode_escape c =
     (let n = unat c in
      [0x5C, 0x75, hexdigit (n div 4096 mod 16), hexdigit (n div 256 mod 16),
       hexdigit (n div 16 mod 16), hexdigit (n mod 16)])"

definition is_lead :: "code_unit \<Rightarrow> bool" where
  "is_lead c \<longleftrightarrow> 0xD800 \<le> c \<and> c \<le> 0xDBFF"

definition is_trail :: "code_unit \<Rightarrow> bool" where
  "is_trail c \<longleftrightarrow> 0xDC00 \<le> c \<and> c \<le> 0xDFFF"

text \<open>One code point that is not a surrogate pair, as QuoteJSONString writes it.\<close>

definition quote1 :: "code_unit \<Rightarrow> js_string" where
  "quote1 c =
     (if c = 0x08 then [0x5C, 0x62]
      else if c = 0x09 then [0x5C, 0x74]
      else if c = 0x0A then [0x5C, 0x6E]
      else if c = 0x0C then [0x5C, 0x66]
      else if c = 0x0D then [0x5C, 0x72]
      else if c = 0x22 then [0x5C, 0x22]
      else if c = 0x5C then [0x5C, 0x5C]
      else if c < 0x20 \<or> is_lead c \<or> is_trail c then unicode_escape c
      else [c])"

fun quote_units :: "js_string \<Rightarrow> js_string" where
  "quote_units [] = []"
| "quote_units [c] = quote1 c"
| "quote_units (c # d # cs) =
     (if is_lead c \<and> is_trail d then c # d # quote_units cs
      else quote1 c @ quote_units (d # cs))"

definition quote :: "js_string \<Rightarrow> js_string" where
  "quote s = 0x22 # quote_units s @ [0x22]"

fun print :: "json \<Rightarrow> js_string"
  and print_elements :: "json list \<Rightarrow> js_string"
  and print_members :: "(js_string \<times> json) list \<Rightarrow> js_string" where
  "print JNull = str ''null''"
| "print (JBool b) = (if b then str ''true'' else str ''false'')"
| "print (JNumber n) = n"
| "print (JString s) = quote s"
| "print (JArray []) = [0x5B, 0x5D]"
| "print (JArray (v # vs)) = 0x5B # print_elements (v # vs)"
| "print (JObject []) = [0x7B, 0x7D]"
| "print (JObject (m # ms)) = 0x7B # print_members (m # ms)"
| "print_elements [] = [0x5D]"
| "print_elements [v] = print v @ [0x5D]"
| "print_elements (v # w # vs) = print v @ 0x2C # print_elements (w # vs)"
| "print_members [] = [0x7D]"
| "print_members [(k, v)] = quote k @ 0x3A # print v @ [0x7D]"
| "print_members ((k, v) # m # ms) = quote k @ 0x3A # print v @ 0x2C # print_members (m # ms)"

text \<open>A value that holds no number, as every serialised session collection.\<close>

fun numfree :: "json \<Rightarrow> bool"
  and numfree_elements :: "json list \<Rightarrow> bool"
  and numfree_members :: "(js_string \<times> json) list \<Rightarrow> bool" where
  "numfree (JNumber n) = False"
| "numfree (JArray vs) = numfree_elements vs"
| "numfree (JObject ms) = numfree_members ms"
| "numfree JNull = True"
| "numfree (JBool b) = True"
| "numfree (JString s) = True"
| "numfree_elements [] = True"
| "numfree_elements (v # vs) = (numfree v \<and> numfree_elements vs)"
| "numfree_members [] = True"
| "numfree_members ((k, v) # ms) = (numfree v \<and> numfree_members ms)"

subsection \<open>Parsing\<close>

definition is_ws :: "code_unit \<Rightarrow> bool" where
  "is_ws c \<longleftrightarrow> c = 0x20 \<or> c = 0x09 \<or> c = 0x0A \<or> c = 0x0D"

definition skip_ws :: "js_string \<Rightarrow> js_string" where
  "skip_ws s = dropWhile is_ws s"

definition is_digit :: "code_unit \<Rightarrow> bool" where
  "is_digit c \<longleftrightarrow> 0x30 \<le> c \<and> c \<le> 0x39"

definition is_hex :: "code_unit \<Rightarrow> bool" where
  "is_hex c \<longleftrightarrow> is_digit c \<or> (0x61 \<le> c \<and> c \<le> 0x66) \<or> (0x41 \<le> c \<and> c \<le> 0x46)"

definition hexval :: "code_unit \<Rightarrow> nat" where
  "hexval c =
     (if is_digit c then unat c - 0x30
      else if 0x61 \<le> c then unat c - 0x57
      else unat c - 0x37)"

text \<open>The characters of a string after its opening quote, up to the closing one.\<close>

fun parse_chars :: "js_string \<Rightarrow> (js_string \<times> js_string) option" where
  "parse_chars [] = None"
| "parse_chars (c # cs) =
     (if c = 0x22 then Some ([], cs)
      else if c = 0x5C then
        (case cs of
           [] \<Rightarrow> None
         | e # es \<Rightarrow>
             if e = 0x75 then
               (case es of
                  h1 # h2 # h3 # h4 # r \<Rightarrow>
                    if is_hex h1 \<and> is_hex h2 \<and> is_hex h3 \<and> is_hex h4 then
                      (case parse_chars r of
                         None \<Rightarrow> None
                       | Some (s, r') \<Rightarrow>
                           Some (of_nat (hexval h1 * 4096 + hexval h2 * 256
                                         + hexval h3 * 16 + hexval h4) # s, r'))
                    else None
                | _ \<Rightarrow> None)
             else
               (case (if e = 0x22 then Some 0x22 else if e = 0x5C then Some 0x5C
                      else if e = 0x2F then Some 0x2F else if e = 0x62 then Some 0x08
                      else if e = 0x66 then Some 0x0C else if e = 0x6E then Some 0x0A
                      else if e = 0x72 then Some 0x0D else if e = 0x74 then Some 0x09
                      else None) of
                  None \<Rightarrow> None
                | Some u \<Rightarrow>
                    (case parse_chars es of
                       None \<Rightarrow> None
                     | Some (s, r') \<Rightarrow> Some (u # s, r'))))
      else if c < 0x20 then None
      else (case parse_chars cs of
              None \<Rightarrow> None
            | Some (s, r') \<Rightarrow> Some (c # s, r')))"

text \<open>
  A number: \<open>-? (0 | [1-9][0-9]*) (. [0-9]+)? ([eE] [+-]? [0-9]+)?\<close>, as its lexeme and the
  rest of the input.
\<close>

definition digits1 :: "js_string \<Rightarrow> (js_string \<times> js_string) option" where
  "digits1 s =
     (let ds = takeWhile is_digit s in
      if ds = [] then None else Some (ds, dropWhile is_digit s))"

definition parse_int :: "js_string \<Rightarrow> (js_string \<times> js_string) option" where
  "parse_int s =
     (case s of
        [] \<Rightarrow> None
      | c # cs \<Rightarrow> if c = 0x30 then Some ([c], cs) else digits1 s)"

definition parse_frac :: "js_string \<Rightarrow> (js_string \<times> js_string) option" where
  "parse_frac s =
     (case s of
        [] \<Rightarrow> Some ([], s)
      | c # cs \<Rightarrow>
          if c = 0x2E then
            (case digits1 cs of None \<Rightarrow> None | Some (ds, r) \<Rightarrow> Some (c # ds, r))
          else Some ([], s))"

definition parse_exp :: "js_string \<Rightarrow> (js_string \<times> js_string) option" where
  "parse_exp s =
     (case s of
        [] \<Rightarrow> Some ([], s)
      | c # cs \<Rightarrow>
          if c = 0x65 \<or> c = 0x45 then
            (case cs of
               [] \<Rightarrow> None
             | g # gs \<Rightarrow>
                 if g = 0x2B \<or> g = 0x2D then
                   (case digits1 gs of None \<Rightarrow> None | Some (ds, r) \<Rightarrow> Some (c # g # ds, r))
                 else
                   (case digits1 cs of None \<Rightarrow> None | Some (ds, r) \<Rightarrow> Some (c # ds, r)))
          else Some ([], s))"

definition parse_number :: "js_string \<Rightarrow> (js_string \<times> js_string) option" where
  "parse_number s =
     (let (sign, s1) = (case s of c # cs \<Rightarrow> if c = 0x2D then ([c], cs) else ([], s) | [] \<Rightarrow> ([], s))
      in case parse_int s1 of
           None \<Rightarrow> None
         | Some (i, s2) \<Rightarrow>
             (case parse_frac s2 of
                None \<Rightarrow> None
              | Some (f, s3) \<Rightarrow>
                  (case parse_exp s3 of
                     None \<Rightarrow> None
                   | Some (e, s4) \<Rightarrow> Some (sign @ i @ f @ e, s4))))"

definition expect :: "js_string \<Rightarrow> json \<Rightarrow> js_string \<Rightarrow> (json \<times> js_string) option" where
  "expect lit v s =
     (if take (length lit) s = lit then Some (v, drop (length lit) s) else None)"

text \<open>
  Recursive descent, with a bound on the nesting of calls. Of two nested calls one has
  consumed a code unit, so \<open>JSON_parse\<close> gives a bound that no input reaches.
\<close>

fun parse_value :: "nat \<Rightarrow> js_string \<Rightarrow> (json \<times> js_string) option"
  and parse_elements :: "nat \<Rightarrow> js_string \<Rightarrow> (json list \<times> js_string) option"
  and parse_members :: "nat \<Rightarrow> js_string \<Rightarrow> ((js_string \<times> json) list \<times> js_string) option" where
  "parse_value 0 s = None"
| "parse_value (Suc n) s =
     (case skip_ws s of
        [] \<Rightarrow> None
      | c # cs \<Rightarrow>
          if c = 0x22 then
            (case parse_chars cs of None \<Rightarrow> None | Some (t, r) \<Rightarrow> Some (JString t, r))
          else if c = 0x5B then
            (case skip_ws cs of
               [] \<Rightarrow> None
             | d # ds \<Rightarrow>
                 if d = 0x5D then Some (JArray [], ds)
                 else (case parse_elements n cs of
                         None \<Rightarrow> None
                       | Some (vs, r) \<Rightarrow> Some (JArray vs, r)))
          else if c = 0x7B then
            (case skip_ws cs of
               [] \<Rightarrow> None
             | d # ds \<Rightarrow>
                 if d = 0x7D then Some (JObject [], ds)
                 else (case parse_members n cs of
                         None \<Rightarrow> None
                       | Some (ms, r) \<Rightarrow> Some (JObject ms, r)))
          else if c = 0x74 then expect (str ''true'') (JBool True) (c # cs)
          else if c = 0x66 then expect (str ''false'') (JBool False) (c # cs)
          else if c = 0x6E then expect (str ''null'') JNull (c # cs)
          else (case parse_number (c # cs) of
                  None \<Rightarrow> None
                | Some (l, r) \<Rightarrow> Some (JNumber l, r)))"
| "parse_elements 0 s = None"
| "parse_elements (Suc n) s =
     (case parse_value n s of
        None \<Rightarrow> None
      | Some (v, r) \<Rightarrow>
          (case skip_ws r of
             [] \<Rightarrow> None
           | c # cs \<Rightarrow>
               if c = 0x2C then
                 (case parse_elements n cs of
                    None \<Rightarrow> None
                  | Some (vs, r') \<Rightarrow> Some (v # vs, r'))
               else if c = 0x5D then Some ([v], cs)
               else None))"
| "parse_members 0 s = None"
| "parse_members (Suc n) s =
     (case skip_ws s of
        [] \<Rightarrow> None
      | q # qs \<Rightarrow>
          if q = 0x22 then
            (case parse_chars qs of
               None \<Rightarrow> None
             | Some (k, r) \<Rightarrow>
                 (case skip_ws r of
                    [] \<Rightarrow> None
                  | c # cs \<Rightarrow>
                      if c = 0x3A then
                        (case parse_value n cs of
                           None \<Rightarrow> None
                         | Some (v, r') \<Rightarrow>
                             (case skip_ws r' of
                                [] \<Rightarrow> None
                              | d # ds \<Rightarrow>
                                  if d = 0x2C then
                                    (case parse_members n ds of
                                       None \<Rightarrow> None
                                     | Some (ms, r'') \<Rightarrow> Some ((k, v) # ms, r''))
                                  else if d = 0x7D then Some ([(k, v)], ds)
                                  else None))
                      else None))
          else None)"

text \<open>\<open>JSON.parse\<close>: \<open>None\<close> stands for the SyntaxError it throws.\<close>

definition JSON_parse :: "js_string \<Rightarrow> json option" where
  "JSON_parse s =
     (case parse_value (2 * length s + 2) s of
        None \<Rightarrow> None
      | Some (v, r) \<Rightarrow> if skip_ws r = [] then Some v else None)"

section \<open>The data model\<close>

text \<open>
  \<open>Message\<close> and \<open>ChatSession\<close> of \<open>page.tsx\<close>. The fields \<open>id\<close> and \<open>text\<close> carry a suffix;
  an optional field that is absent is \<open>None\<close>.
\<close>

datatype role = User | Bot

record message =
  id_m :: js_string
  role :: role
  text_m :: js_string
  time :: "js_string option"
  sources :: "js_string list option"

record chat_session =
  id_s :: js_string
  createdAt :: js_string
  messages :: "message list"

subsection \<open>The collection as JSON\<close>

text \<open>
  \<open>JSON.stringify\<close> writes the own properties of an object in the order of their creation,
  and leaves out the ones that are undefined. Every message the page builds has its
  properties in the order \<open>id, role, text, time, sources\<close>, every session in the order
  \<open>id, createdAt, messages\<close>; the spreads of the updaters keep that order.
\<close>

definition role_name :: "role \<Rightarrow> js_string" where
  "role_name r = (case r of User \<Rightarrow> str ''user'' | Bot \<Rightarrow> str ''bot'')"

definition encode_message :: "message \<Rightarrow> json" where
  "encode_message m =
     JObject ([(str ''id'', JString (id_m m)),
               (str ''role'', JString (role_name (role m))),
               (str ''text'', JString (text_m m))]
              @ (case time m of None \<Rightarrow> [] | Some t \<Rightarrow> [(str ''time'', JString t)])
              @ (case sources m of
                   None \<Rightarrow> []
                 | Some ss \<Rightarrow> [(str ''sources'', JArray (map JString ss))]))"

definition encode_session :: "chat_session \<Rightarrow> json" where
  "encode_session s =
     JObject [(str ''id'', JString (id_s s)),
              (str ''createdAt'', JString (createdAt s)),
              (str ''messages'', JArray (map encode_message (messages s)))]"

definition encode_sessions :: "chat_session list \<Rightarrow> json" where
  "encode_sessions ss = JArray (map encode_session ss)"

definition JSON_stringify :: "chat_session list \<Rightarrow> js_string" where
  "JSON_stringify ss = print (encode_sessions ss)"

text \<open>
  The cast \<open>JSON.parse(raw) as ChatSession[]\<close> checks nothing at run time: the load effect
  passes on whatever was parsed. The state of the model has the declared types, so a parsed
  value is read as the records of its fields when it is of the declared type: an array of
  objects that have the properties of \<open>ChatSession\<close>, with values of their types, the
  messages likewise for \<open>Message\<close>. The keys may come in any order and with any further
  property; of a key that occurs twice \<open>JSON.parse\<close> keeps the last value. The records hold
  the fields of the type and nothing else of a loaded object: where the keys of a loaded
  object come in another order than the page writes them, or with further properties, the
  strings that the persist effect writes afterwards are modelled up to that order and those
  properties (see \<open>own_layout\<close>). What \<open>load_effect\<close> does with a value that is not of the
  declared type is said there.
\<close>

fun traverse :: "('a \<Rightarrow> 'b option) \<Rightarrow> 'a list \<Rightarrow> 'b list option" where
  "traverse f [] = Some []"
| "traverse f (x # xs) =
     (case f x of
        None \<Rightarrow> None
      | Some y \<Rightarrow> (case traverse f xs of None \<Rightarrow> None | Some ys \<Rightarrow> Some (y # ys)))"

definition property :: "js_string \<Rightarrow> (js_string \<times> json) list \<Rightarrow> json option" where
  "property k kvs = map_of (rev kvs) k"

definition as_string :: "json \<Rightarrow> js_string option" where
  "as_string j = (case j of JString s \<Rightarrow> Some s | _ \<Rightarrow> None)"

definition as_strings :: "json \<Rightarrow> js_string list option" where
  "as_strings j = (case j of JArray js \<Rightarrow> traverse as_string js | _ \<Rightarrow> None)"

definition as_role :: "json \<Rightarrow> role option" where
  "as_role j =
     (case j of
        JString s \<Rightarrow>
          if s = str ''user'' then Some User else if s = str ''bot'' then Some Bot else None
      | _ \<Rightarrow> None)"

text \<open>A required property, and an optional one: absent, or present with a value of its type.\<close>

definition required :: "(json \<Rightarrow> 'a option) \<Rightarrow> json option \<Rightarrow> 'a option" where
  "required f v = (case v of None \<Rightarrow> None | Some j \<Rightarrow> f j)"

definition optional :: "(json \<Rightarrow> 'a option) \<Rightarrow> json option \<Rightarrow> 'a option option" where
  "optional f v =
     (case v of
        None \<Rightarrow> Some None
      | Some j \<Rightarrow> (case f j of None \<Rightarrow> None | Some x \<Rightarrow> Some (Some x)))"

definition decode_message :: "json \<Rightarrow> message option" where
  "decode_message j =
     (case j of
        JObject kvs \<Rightarrow>
          (case required as_string (property (str ''id'') kvs) of
             None \<Rightarrow> None
           | Some i \<Rightarrow>
               (case required as_role (property (str ''role'') kvs) of
                  None \<Rightarrow> None
                | Some r \<Rightarrow>
                    (case required as_string (property (str ''text'') kvs) of
                       None \<Rightarrow> None
                     | Some t \<Rightarrow>
                         (case optional as_string (property (str ''time'') kvs) of
                            None \<Rightarrow> None
                          | Some tm \<Rightarrow>
                              (case optional as_strings (property (str ''sources'') kvs) of
                                 None \<Rightarrow> None
                               | Some so \<Rightarrow>
                                   Some \<lparr>id_m = i, role = r, text_m = t,
                                         time = tm, sources = so\<rparr>)))))
      | _ \<Rightarrow> None)"

definition as_messages :: "json \<Rightarrow> message list option" where
  "as_messages j = (case j of JArray js \<Rightarrow> traverse decode_message js | _ \<Rightarrow> None)"

definition decode_session :: "json \<Rightarrow> chat_session option" where
  "decode_session j =
     (case j of
        JObject kvs \<Rightarrow>
          (case required as_string (property (str ''id'') kvs) of
             None \<Rightarrow> None
           | Some i \<Rightarrow>
               (case required as_string (property (str ''createdAt'') kvs) of
                  None \<Rightarrow> None
                | Some ca \<Rightarrow>
                    (case required as_messages (property (str ''messages'') kvs) of
                       None \<Rightarrow> None
                     | Some ms \<Rightarrow> Some \<lparr>id_s = i, createdAt = ca, messages = ms\<rparr>)))
      | _ \<Rightarrow> None)"

definition decode_sessions :: "json \<Rightarrow> chat_session list option" where
  "decode_sessions j = (case j of JArray js \<Rightarrow> traverse decode_session js | _ \<Rightarrow> None)"

section \<open>The component\<close>

text \<open>
  The state of \<open>Home\<close>: its four state variables, the browser's \<open>localStorage\<close>, and the
  bodies of the requests sent to \<open>backend/ask\<close>, oldest first.
\<close>

record app =
  sessions :: "chat_session list"
  currentSessionId :: "js_string option"
  input :: js_string
  loading :: bool
  localStorage :: "js_string \<rightharpoonup> js_string"
  requests :: "js_string list"

definition STORAGE_SESSIONS_KEY :: js_string where
  "STORAGE_SESSIONS_KEY = str ''finchat_sessions_v1''"

text \<open>The session the page shows: \<open>sessions.find(s => s.id === currentSessionId)\<close>.\<close>

definition currentSession :: "app \<Rightarrow> chat_session option" where
  "currentSession st = find (\<lambda>s. Some (id_s s) = currentSessionId st) (sessions st)"

subsection \<open>State updates and effects\<close>

text \<open>
  A call of a state setter queues an update; React applies the queued updates in order
  when the running code yields, renders, and then runs the effects whose dependencies
  changed. \<open>setSessions\<close> is called with an updater function (or, in \<open>clearAllSessions\<close>
  and the load effect, with a value: the constant updater). Every call in \<open>page.tsx\<close> yields
  a freshly allocated array (a literal, a spread, \<open>map\<close>, \<open>filter\<close>, the result of
  \<open>JSON.parse\<close>), which is never identical to the previous one, so the persist effect,
  whose dependency is \<open>[sessions]\<close>, runs after every commit that holds a \<open>setSessions\<close>.
  The scrolling of that effect is not modelled.
\<close>

datatype update =
    SetSessions "chat_session list \<Rightarrow> chat_session list"
  | SetCurrentSessionId "js_string option"
  | SetInput js_string
  | SetLoading bool

fun apply_update :: "update \<Rightarrow> app \<Rightarrow> app" where
  "apply_update (SetSessions f) st = st\<lparr>sessions := f (sessions st)\<rparr>"
| "apply_update (SetCurrentSessionId c) st = st\<lparr>currentSessionId := c\<rparr>"
| "apply_update (SetInput i) st = st\<lparr>input := i\<rparr>"
| "apply_update (SetLoading l) st = st\<lparr>loading := l\<rparr>"

fun sets_sessions :: "update \<Rightarrow> bool" where
  "sets_sessions (SetSessions f) = True"
| "sets_sessions _ = False"

definition persist_effect :: "app \<Rightarrow> app" where
  "persist_effect st =
     st\<lparr>localStorage := (localStorage st)(STORAGE_SESSIONS_KEY \<mapsto> JSON_stringify (sessions st))\<rparr>"

definition commit :: "update list \<Rightarrow> app \<Rightarrow> app" where
  "commit us st =
     (let st' = fold apply_update us st
      in if list_ex sets_sessions us then persist_effect st' else st')"

subsection \<open>Mounting\<close>

text \<open>
  What the load effect does: it queues updates and returns; or \<open>JSON.parse\<close> throws its
  SyntaxError, which nothing in the component catches; or the parsed value is not of the
  declared type. The effect passes that value to \<open>setSessions\<close> all the same; the state of
  the model, which has the declared types, cannot hold it, and the model does not follow
  the component from there.
\<close>

datatype ('a, 's) outcome = Done 'a | Threw_SyntaxError 's | Untyped json

definition load_effect :: "app \<Rightarrow> (update list, unit) outcome" where
  "load_effect st =
     (case localStorage st STORAGE_SESSIONS_KEY of
        None \<Rightarrow> Done []
      | Some raw \<Rightarrow>
          if raw = [] then Done []
          else
            (case JSON_parse raw of
               None \<Rightarrow> Threw_SyntaxError ()
             | Some j \<Rightarrow>
                 (case decode_sessions j of
                    None \<Rightarrow> Untyped j
                  | Some loaded \<Rightarrow>
                      Done (SetSessions (\<lambda>_. loaded)
                            # (case loaded of
                                 [] \<Rightarrow> []
                               | s # _ \<Rightarrow> [SetCurrentSessionId (Some (id_s s))])))))"

definition initial :: "(js_string \<rightharpoonup> js_string) \<Rightarrow> app" where
  "initial ls =
     \<lparr>sessions = [], currentSessionId = None, input = [], loading = False,
      localStorage = ls, requests = []\<rparr>"

text \<open>
  The first render shows the initial state; its two effects run in the order of their
  declaration, the load effect reading the storage before the persist effect overwrites
  it. If the load effect queued updates, a second commit follows. The result lists the
  state after each commit. Each effect runs once for a commit, as in a production build.

  React runs the effects of a component in one loop and catches what they throw outside of
  it: when the load effect throws, the persist effect of the first commit does not run, and
  the component is taken down. The result then is the state the first commit left.
\<close>

definition mount :: "(js_string \<rightharpoonup> js_string) \<Rightarrow> (app list, app) outcome" where
  "mount ls =
     (let st0 = initial ls in
      case load_effect st0 of
        Threw_SyntaxError _ \<Rightarrow> Threw_SyntaxError st0
      | Untyped j \<Rightarrow> Untyped j
      | Done us \<Rightarrow>
          (let st1 = persist_effect st0
           in Done (case us of [] \<Rightarrow> [st1] | _ # _ \<Rightarrow> [st1, commit us st1])))"

subsection \<open>The session store\<close>

text \<open>
  \<open>startNewSession\<close> reads the clock twice: \<open>now\<close> is \<open>Date.now()\<close>, \<open>stamp\<close> is \<open>nowIso()\<close>.
\<close>

definition startNewSession :: "nat \<Rightarrow> js_string \<Rightarrow> app \<Rightarrow> app" where
  "startNewSession now stamp st =
     (let newSession = \<lparr>id_s = toString now, createdAt = stamp, messages = []\<rparr>
      in commit [SetSessions (\<lambda>prevSessions. newSession # prevSessions),
                 SetCurrentSessionId (Some (id_s newSession))] st)"

text \<open>
  \<open>addMessage\<close> queues one update; \<open>cur\<close> is the \<open>currentSessionId\<close> of the render whose
  closure makes the call.
\<close>

definition addMessage :: "js_string option \<Rightarrow> message \<Rightarrow> update" where
  "addMessage cur msg =
     SetSessions (\<lambda>prevSessions.
       map (\<lambda>s. if Some (id_s s) = cur then s\<lparr>messages := messages s @ [msg]\<rparr> else s)
         prevSessions)"

text \<open>
  \<open>deleteSession\<close> reads \<open>sessions\<close> and \<open>currentSessionId\<close> of the render whose closure it
  is: the collection as it was before the queued filter is applied.
  \<open>sessions[0]?.id || null\<close> is null for an empty collection and for an empty id.
\<close>

definition deleteSession :: "js_string \<Rightarrow> app \<Rightarrow> app" where
  "deleteSession sessionId st =
     commit
       (SetSessions (\<lambda>prevSessions. filter (\<lambda>s. id_s s \<noteq> sessionId) prevSessions)
        # (if currentSessionId st = Some sessionId then
             [SetCurrentSessionId
                (case sessions st of
                   [] \<Rightarrow> None
                 | s # _ \<Rightarrow> if id_s s = [] then None else Some (id_s s))]
           else []))
       st"

text \<open>
  \<open>clearAllSessions\<close> queues two updates and removes the storage entry at once; the
  commit comes after the handler has returned.
\<close>

definition removeItem :: "js_string \<Rightarrow> app \<Rightarrow> app" where
  "removeItem k st = st\<lparr>localStorage := (localStorage st)(k := None)\<rparr>"

definition clearAllSessions :: "app \<Rightarrow> app" where
  "clearAllSessions st =
     commit [SetSessions (\<lambda>_. []), SetCurrentSessionId None]
       (removeItem STORAGE_SESSIONS_KEY st)"

subsection \<open>The conversation controller\<close>

text \<open>
  What \<open>fetch\<close> and \<open>res.json()\<close> can give: a rejection, or a response with its status and
  either a rejection of \<open>res.json()\<close> or the fields \<open>answer\<close> and \<open>sources\<close> of the body
  (\<open>None\<close> when absent). Something thrown is an \<open>Error\<close> with its message, or another value.
\<close>

datatype thrown = JsError js_string | NonError

datatype data = Data "js_string option" "js_string list option"

datatype fetch_result = Rejected thrown | Response nat "thrown + data"

definition ok :: "nat \<Rightarrow> bool" where
  "ok status \<longleftrightarrow> 200 \<le> status \<and> status \<le> 299"

text \<open>The part of the \<open>try\<close> block that can throw: up to \<open>answer\<close> and \<open>sources\<close>.\<close>

definition await_answer :: "fetch_result \<Rightarrow> thrown + (js_string \<times> js_string list)" where
  "await_answer res =
     (case res of
        Rejected e \<Rightarrow> Inl e
      | Response status body \<Rightarrow>
          if \<not> ok status then Inl (JsError (str ''Server error: '' @ toString status))
          else
            (case body of
               Inl e \<Rightarrow> Inl e
             | Inr (Data a s) \<Rightarrow>
                 Inr (case a of None \<Rightarrow> [] | Some answer \<Rightarrow> answer,
                      case s of None \<Rightarrow> [] | Some srcs \<Rightarrow> srcs)))"

text \<open>
  The three updaters of \<open>sendMessage\<close> have one shape and differ in what they do to the
  message whose id is that of the placeholder, in the sessions whose id is the captured
  \<open>currentSessionId\<close>.
\<close>

definition map_bot ::
  "js_string option \<Rightarrow> js_string \<Rightarrow> (message \<Rightarrow> message)
     \<Rightarrow> chat_session list \<Rightarrow> chat_session list" where
  "map_bot cur botId f prevSessions =
     map (\<lambda>s. if Some (id_s s) = cur
              then s\<lparr>messages := map (\<lambda>m. if id_m m = botId then f m else m) (messages s)\<rparr>
              else s)
       prevSessions"

definition update_bot ::
  "js_string option \<Rightarrow> js_string \<Rightarrow> (message \<Rightarrow> message) \<Rightarrow> update" where
  "update_bot cur botId f = SetSessions (map_bot cur botId f)"

text \<open>The typing animation: one commit for each code unit of the answer.\<close>

function typing ::
  "js_string option \<Rightarrow> js_string \<Rightarrow> js_string \<Rightarrow> nat \<Rightarrow> js_string \<Rightarrow> app \<Rightarrow> app list" where
  "typing cur botId answer i displayed st =
     (if i < length answer then
        (let displayed' = displayed @ [answer ! i];
             st' = commit [update_bot cur botId (\<lambda>m. m\<lparr>text_m := displayed'\<rparr>)] st
         in st' # typing cur botId answer (Suc i) displayed' st')
      else [])"
  by pat_completeness auto
termination
  by (relation "measure (\<lambda>(cur, botId, answer, i, displayed, st). length answer - i)") auto

definition request_body :: "js_string \<Rightarrow> js_string" where
  "request_body question = print (JObject [(str ''question'', JString question)])"

definition fetch :: "js_string \<Rightarrow> app \<Rightarrow> app" where
  "fetch body st = st\<lparr>requests := requests st @ [body]\<rparr>"

definition error_text :: "thrown \<Rightarrow> js_string" where
  "error_text err =
     [0x26A0, 0xFE0F] @ str '' Error: ''
     @ (case err of JsError message \<Rightarrow> message | NonError \<Rightarrow> str ''Unknown error'')"

text \<open>
  The two messages of \<open>sendMessage\<close>: \<open>now\<close> is the \<open>Date.now()\<close> read for the message,
  \<open>stamp\<close> its \<open>nowIso()\<close>.
\<close>

definition userMsg :: "nat \<Rightarrow> js_string \<Rightarrow> js_string \<Rightarrow> message" where
  "userMsg now stamp text =
     \<lparr>id_m = toString now, role = User, text_m = text, time = Some stamp, sources = None\<rparr>"

definition botMsg :: "nat \<Rightarrow> js_string \<Rightarrow> message" where
  "botMsg now stamp =
     \<lparr>id_m = toString (now + 1), role = Bot, text_m = [], time = Some stamp, sources = None\<rparr>"

text \<open>
  \<open>sendMessage\<close>, with the clock readings for the two messages and the result of the
  request as arguments. It gives the state after each of its commits, in order, and no
  state when it returns at its guard. The guard \<open>!text || !currentSessionId\<close> holds for
  the empty string and for null. The request leaves before the first commit: the updates
  queued so far are applied when the function yields at its first \<open>await\<close>. The last
  update of the \<open>try\<close> or the \<open>catch\<close> block and the \<open>setLoading(false)\<close> of the \<open>finally\<close> block
  run without a yield between them and make one commit. No other event is interleaved.
\<close>

definition sendMessage ::
  "nat \<Rightarrow> js_string \<Rightarrow> nat \<Rightarrow> js_string \<Rightarrow> fetch_result \<Rightarrow> app \<Rightarrow> app list" where
  "sendMessage now1 stamp1 now2 stamp2 res st =
     (let text = trim (input st); cur = currentSessionId st in
      if text = [] \<or> cur = None \<or> cur = Some [] then []
      else
        (let botId = id_m (botMsg now2 stamp2);
             st1 = commit [addMessage cur (userMsg now1 stamp1 text), SetInput [],
                           SetLoading True, addMessage cur (botMsg now2 stamp2)]
                     (fetch (request_body text) st)
         in st1 #
            (case await_answer res of
               Inr (answer, srcs) \<Rightarrow>
                 (let steps = typing cur botId answer 0 [] st1
                  in steps @
                     [commit [update_bot cur botId
                                (\<lambda>m. m\<lparr>text_m := answer, sources := Some srcs\<rparr>),
                              SetLoading False]
                        (last (st1 # steps))])
             | Inl err \<Rightarrow>
                 [commit [update_bot cur botId
                            (\<lambda>m. m\<lparr>text_m := error_text err, sources := Some []\<rparr>),
                          SetLoading False]
                    st1])))"

subsection \<open>Events\<close>

text \<open>
  What the user can do on the page: the three buttons of the sidebar, a click on a
  session (\<open>setCurrentSessionId(s.id)\<close>), typing (\<open>setInput(e.target.value)\<close>), and sending
  a message (the Enter key or the button, both behind \<open>!loading\<close>), which ends in the state
  of its last commit.
\<close>

datatype event =
    StartNewSession nat js_string
  | DeleteSession js_string
  | ClearAllSessions
  | SelectSession js_string
  | TypeInput js_string
  | SendMessage nat js_string nat js_string fetch_result

fun step :: "event \<Rightarrow> app \<Rightarrow> app" where
  "step (StartNewSession now stamp) st = startNewSession now stamp st"
| "step (DeleteSession sessionId) st = deleteSession sessionId st"
| "step ClearAllSessions st = clearAllSessions st"
| "step (SelectSession sessionId) st = commit [SetCurrentSessionId (Some sessionId)] st"
| "step (TypeInput v) st = commit [SetInput v] st"
| "step (SendMessage now1 stamp1 now2 stamp2 res) st =
     (if loading st then st else last (st # sendMessage now1 stamp1 now2 stamp2 res st))"




section \<open>Parsing what was serialised\<close>

lemma hex_nat:
  assumes "n < 65536"
  shows "n div 4096 mod 16 * 4096 + n div 256 mod 16 * 256 + n div 16 mod 16 * 16 + n mod 16
         = (n::nat)"
proof -
  define a where "a = n div 16"
  define b where "b = n div 256"
  define c where "c = n div 4096"
  have ab: "b = a div 16" by (simp add: a_def b_def div_mult2_eq)
  have bc: "c = b div 16" by (simp add: b_def c_def div_mult2_eq)
  have c16: "c mod 16 = c" using assms by (simp add: c_def)
  have n: "n = a * 16 + n mod 16" by (simp add: a_def)
  have a: "a = b * 16 + a mod 16" by (simp add: ab)
  have b: "b = c * 16 + b mod 16" by (simp add: bc)
  have "c * 4096 + b mod 16 * 256 + a mod 16 * 16 + n mod 16
        = ((c * 16 + b mod 16) * 16 + a mod 16) * 16 + n mod 16"
    by (simp add: algebra_simps)
  also have "\<dots> = (b * 16 + a mod 16) * 16 + n mod 16" using b by simp
  also have "\<dots> = a * 16 + n mod 16" using a by simp
  also have "\<dots> = n" using n by simp
  finally show ?thesis by (simp add: a_def b_def c_def c16 [unfolded c_def])
qed


lemma unat_hexdigit:
  "d < 16 \<Longrightarrow> unat (hexdigit d) = (if d < 10 then 48 + d else 87 + d)"
  by (simp add: hexdigit_def unat_word_ariths unat_of_nat)

lemma hexdigit_ok: "d < 16 \<Longrightarrow> is_hex (hexdigit d) \<and> hexval (hexdigit d) = d"
  by (auto simp: is_hex_def is_digit_def hexval_def word_le_nat_alt unat_hexdigit)

lemma is_hex_hexdigit [simp]: "is_hex (hexdigit (n mod 16))"
  by (simp add: hexdigit_ok)

lemma hexval_hexdigit [simp]: "hexval (hexdigit (n mod 16)) = n mod 16"
  by (simp add: hexdigit_ok)

lemma parse_unicode_escape:
  "parse_chars (unicode_escape c @ X)
     = (case parse_chars X of None \<Rightarrow> None | Some (s, r) \<Rightarrow> Some (c # s, r))"
proof -
  have "unat c < 65536" using unsigned_less [of c, where ?'a = nat] by simp
  then have "of_nat (unat c div 4096 mod 16 * 4096 + unat c div 256 mod 16 * 256
               + unat c div 16 mod 16 * 16 + unat c mod 16) = c"
    by (simp only: hex_nat) simp
  then show ?thesis
    by (simp add: unicode_escape_def Let_def split: option.splits)
qed

lemma parse_quote1:
  "parse_chars (quote1 c @ X)
     = (case parse_chars X of None \<Rightarrow> None | Some (s, r) \<Rightarrow> Some (c # s, r))"
  by (simp add: quote1_def parse_unicode_escape split: option.splits)

lemma parse_pair:
  "is_lead c \<Longrightarrow> is_trail d \<Longrightarrow>
     parse_chars (c # d # X)
       = (case parse_chars X of None \<Rightarrow> None | Some (s, r) \<Rightarrow> Some (c # d # s, r))"
  by (auto simp: is_lead_def is_trail_def word_le_nat_alt word_less_nat_alt split: option.splits)

lemma parse_quote_units:
  "parse_chars (quote_units s @ 0x22 # rest) = Some (s, rest)"
proof (induction s rule: quote_units.induct)
  case 1
  show ?case by simp
next
  case (2 c)
  show ?case by (simp add: parse_quote1 del: parse_chars.simps) simp
next
  case (3 c d cs)
  show ?case
  proof (cases "is_lead c \<and> is_trail d")
    case True
    with 3 show ?thesis by (simp add: parse_pair del: parse_chars.simps)
  next
    case False
    with 3 show ?thesis by (auto simp add: parse_quote1 simp del: parse_chars.simps)
  qed
qed

lemma parse_quote: "parse_chars (tl (quote s) @ rest) = Some (s, rest)"
  by (simp add: quote_def parse_quote_units del: parse_chars.simps)

lemma skip_ws_Cons: "\<not> is_ws c \<Longrightarrow> skip_ws (c # cs) = c # cs"
  by (simp add: skip_ws_def)

lemma print_first:
  "numfree j \<Longrightarrow> \<exists>c cs. print j = c # cs \<and> \<not> is_ws c \<and> c \<noteq> 0x5D \<and> c \<noteq> 0x7D"
proof (cases j)
  case (JArray vs)
  then show ?thesis by (cases vs) (simp_all add: is_ws_def)
next
  case (JObject ms)
  then show ?thesis by (cases ms) (simp_all add: is_ws_def)
qed (simp_all add: str_def quote_def is_ws_def)

lemma print_elements_first:
  assumes "numfree v"
  shows "\<exists>c cs. print_elements (v # vs) @ rest = c # cs \<and> \<not> is_ws c \<and> c \<noteq> 0x5D"
proof -
  from print_first [OF assms] obtain c cs where "print v = c # cs" "\<not> is_ws c" "c \<noteq> 0x5D"
    by blast
  then show ?thesis by (cases vs) simp_all
qed

lemma print_members_first:
  "\<exists>cs. print_members ((k, v) # ms) @ rest = 0x22 # cs"
  by (cases ms) (simp_all add: quote_def)

lemma parse_value_quote:
  "parse_value (Suc n) (quote s @ rest) = Some (JString s, rest)"
  using parse_quote [of s rest]
  by (simp add: quote_def skip_ws_Cons is_ws_def del: parse_chars.simps)

lemma parse_print:
  "numfree j \<Longrightarrow> length (print j) \<le> n \<Longrightarrow> parse_value n (print j @ rest) = Some (j, rest)"
  "numfree_elements vs \<Longrightarrow> vs \<noteq> [] \<Longrightarrow> length (print_elements vs) \<le> n \<Longrightarrow>
     parse_elements n (print_elements vs @ rest) = Some (vs, rest)"
  "numfree_members ms \<Longrightarrow> ms \<noteq> [] \<Longrightarrow> length (print_members ms) \<le> n \<Longrightarrow>
     parse_members n (print_members ms @ rest) = Some (ms, rest)"
proof (induction j and vs and ms arbitrary: n rest and n rest and n rest
    rule: print_print_elements_print_members.induct)
  case 1
  then show ?case
    by (cases n) (simp_all add: str_def skip_ws_Cons is_ws_def expect_def)
next
  case (2 b)
  then show ?case
    by (cases n; cases b) (simp_all add: str_def skip_ws_Cons is_ws_def expect_def)
next
  case (3 n)
  then show ?case by simp
next
  case (4 s)
  then show ?case
    by (cases n) (simp_all add: parse_value_quote del: parse_value.simps, simp add: quote_def)
next
  case 5
  then show ?case by (cases n) (simp_all add: skip_ws_Cons is_ws_def)
next
  case (6 v vs)
  from "6.prems" obtain n' where n: "n = Suc n'" and l: "length (print_elements (v # vs)) \<le> n'"
    by (cases n) simp_all
  from "6.prems" have nf: "numfree v" "numfree_elements (v # vs)" by simp_all
  from print_elements_first [OF nf(1), of vs rest]
  obtain c cs where f: "print_elements (v # vs) @ rest = c # cs" "\<not> is_ws c" "c \<noteq> 0x5D"
    by blast
  have "parse_elements n' (print_elements (v # vs) @ rest) = Some (v # vs, rest)"
    using nf l by (intro "6.IH") simp_all
  then show ?case
    using f by (simp add: n skip_ws_Cons is_ws_def)
next
  case 7
  then show ?case by (cases n) (simp_all add: skip_ws_Cons is_ws_def)
next
  case (8 m ms)
  obtain k v where m: "m = (k, v)" by (cases m)
  from "8.prems" obtain n' where n: "n = Suc n'" and l: "length (print_members (m # ms)) \<le> n'"
    by (cases n) simp_all
  from "8.prems" have nf: "numfree_members (m # ms)" by simp
  from print_members_first [of k v ms rest]
  obtain cs where f: "print_members (m # ms) @ rest = 0x22 # cs" unfolding m by blast
  have "parse_members n' (print_members (m # ms) @ rest) = Some (m # ms, rest)"
    using nf l by (intro "8.IH") simp_all
  then show ?case
    using f by (simp add: n skip_ws_Cons is_ws_def)
next
  case 9
  then show ?case by simp
next
  case (10 v)
  from "10.prems" obtain n' where n: "n = Suc n'" and l: "length (print v) \<le> n'"
    by (cases n) simp_all
  from "10.prems" have "numfree v" by simp
  from "10.IH" [OF this l, of "0x5D # rest"]
  show ?case by (simp add: n skip_ws_Cons is_ws_def)
next
  case (11 v w vs)
  from "11.prems" obtain n' where n: "n = Suc n'" and l: "length (print v) \<le> n'"
    and l': "length (print_elements (w # vs)) \<le> n'"
    by (cases n) simp_all
  from "11.prems" have nf: "numfree v" "numfree_elements (w # vs)" by simp_all
  from "11.IH"(1) [OF nf(1) l, of "0x2C # print_elements (w # vs) @ rest"]
    "11.IH"(2) [OF nf(2) _ l', of rest]
  show ?case by (simp add: n skip_ws_Cons is_ws_def)
next
  case 12
  then show ?case by simp
next
  case (13 k v)
  from "13.prems" obtain n' where n: "n = Suc n'" and l: "length (print v) \<le> n'"
    by (cases n) simp_all
  from "13.prems" have "numfree v" by simp
  from "13.IH" [OF this l, of "0x7D # rest"] parse_quote [of k "0x3A # print v @ 0x7D # rest"]
  show ?case by (simp add: n skip_ws_Cons is_ws_def quote_def del: parse_chars.simps)
next
  case (14 k v m ms)
  from "14.prems" obtain n' where n: "n = Suc n'" and l: "length (print v) \<le> n'"
    and l': "length (print_members (m # ms)) \<le> n'"
    by (cases n) simp_all
  from "14.prems" have nf: "numfree v" "numfree_members (m # ms)" by simp_all
  from "14.IH"(1) [OF nf(1) l, of "0x2C # print_members (m # ms) @ rest"]
    "14.IH"(2) [OF nf(2) _ l', of rest]
    parse_quote [of k "0x3A # print v @ 0x2C # print_members (m # ms) @ rest"]
  show ?case by (simp add: n skip_ws_Cons is_ws_def quote_def del: parse_chars.simps)
qed

section \<open>Facts about commits\<close>

declare toString.simps [simp del]

declare typing.simps [simp del]

lemma JSON_stringify_Nil: "JSON_stringify [] = [0x5B, 0x5D]"
  by (simp add: JSON_stringify_def encode_sessions_def)

lemma apply_update_storage [simp]: "localStorage (apply_update u st) = localStorage st"
  by (cases u) simp_all

lemma apply_update_requests [simp]: "requests (apply_update u st) = requests st"
  by (cases u) simp_all

lemma fold_apply_update_storage [simp]:
  "localStorage (fold apply_update us st) = localStorage st"
  by (induction us arbitrary: st) simp_all

lemma fold_apply_update_requests [simp]:
  "requests (fold apply_update us st) = requests st"
  by (induction us arbitrary: st) simp_all




lemma requests_commit [simp]: "requests (commit us st) = requests st"
  by (simp add: commit_def persist_effect_def Let_def)

lemma toString_5: "toString 5 = [0x35]"
  by (subst toString.simps) (simp add: digit_def)
lemma toString_7: "toString 7 = [0x37]"
  by (subst toString.simps) (simp add: digit_def)

lemma toString_not_Nil: "toString n \<noteq> []"
  by (subst toString.simps) simp

lemma digit_inj: "a < 10 \<Longrightarrow> b < 10 \<Longrightarrow> digit a = digit b \<Longrightarrow> a = b"
proof -
  assume a: "a < 10" and b: "b < 10" and e: "digit a = digit b"
  from e have "(of_nat a :: 16 word) = of_nat b" by (simp add: digit_def)
  then have "unat (of_nat a :: 16 word) = unat (of_nat b :: 16 word)" by simp
  with a b show "a = b" by (simp add: unat_of_nat)
qed

lemma toString_inj: "toString a = toString b \<Longrightarrow> a = b"
proof (induction a arbitrary: b rule: toString.induct)
  case (1 n)
  show ?case
  proof (cases "n < 10")
    case True
    with "1.prems" have e: "[digit n] = toString b" by (subst (asm) toString.simps) simp
    show ?thesis
    proof (cases "b < 10")
      case b: True
      with e have "digit n = digit b" by (subst (asm) toString.simps) simp
      with True b show ?thesis by (rule digit_inj)
    next
      case False
      with e have "[digit n] = toString (b div 10) @ [digit (b mod 10)]"
        by (subst (asm) toString.simps) simp
      then have "toString (b div 10) = []" by simp
      then show ?thesis by (simp add: toString_not_Nil)
    qed
  next
    case False
    with "1.prems" have e: "toString (n div 10) @ [digit (n mod 10)] = toString b"
      by (subst (asm) toString.simps) simp
    show ?thesis
    proof (cases "b < 10")
      case True
      with e have "toString (n div 10) @ [digit (n mod 10)] = [digit b]"
        by (subst (asm) (2) toString.simps) simp
      then have "toString (n div 10) = []" by simp
      then show ?thesis by (simp add: toString_not_Nil)
    next
      case b: False
      with e have "toString (n div 10) @ [digit (n mod 10)]
                   = toString (b div 10) @ [digit (b mod 10)]"
        by (subst (asm) (2) toString.simps) simp
      then have q: "toString (n div 10) = toString (b div 10)"
        and r: "digit (n mod 10) = digit (b mod 10)" by simp_all
      from False q have "n div 10 = b div 10" by (rule "1.IH")
      moreover from r have "n mod 10 = b mod 10" by (intro digit_inj) simp_all
      ultimately show ?thesis by (metis div_mult_mod_eq)
    qed
  qed
qed

lemma sessions_commit_addMessage:
  "sessions (commit [addMessage cur m] st)
     = map (\<lambda>s. if Some (id_s s) = cur then s\<lparr>messages := messages s @ [m]\<rparr> else s) (sessions st)"
  by (simp add: commit_def addMessage_def persist_effect_def)

lemma current_commit_addMessage:
  "currentSessionId (commit [addMessage cur m] st) = currentSessionId st"
  by (simp add: commit_def addMessage_def persist_effect_def)

lemma addMessage_fold:
  "currentSessionId (fold (\<lambda>m s. commit [addMessage (currentSessionId s) m] s) msgs st)
     = currentSessionId st
   \<and> sessions (fold (\<lambda>m s. commit [addMessage (currentSessionId s) m] s) msgs st)
     = map (\<lambda>s. if Some (id_s s) = currentSessionId st
                then s\<lparr>messages := messages s @ msgs\<rparr> else s) (sessions st)"
proof (induction msgs arbitrary: st)
  case Nil
  show ?case by (simp add: map_idI)
next
  case (Cons m msgs)
  show ?case
    by (simp add: Cons.IH sessions_commit_addMessage current_commit_addMessage o_def)
qed









lemma commit_update_bot_final:
  "sessions (commit [update_bot cur b f, SetLoading l] st) = map_bot cur b f (sessions st)"
  "currentSessionId (commit [update_bot cur b f, SetLoading l] st) = currentSessionId st"
  "input (commit [update_bot cur b f, SetLoading l] st) = input st"
  "loading (commit [update_bot cur b f, SetLoading l] st) = l"
  by (simp_all add: commit_def update_bot_def persist_effect_def)



lemma length_map_bot [simp]: "length (map_bot cur b f ss) = length ss"
  by (simp add: map_bot_def)




lemma sendMessage_first:
  "sessions (commit [addMessage cur u, SetInput [], SetLoading True, addMessage cur b]
       (fetch body st))
     = map (\<lambda>s. if Some (id_s s) = cur then s\<lparr>messages := messages s @ [u, b]\<rparr> else s)
         (sessions st)"
  "currentSessionId (commit [addMessage cur u, SetInput [], SetLoading True, addMessage cur b]
       (fetch body st)) = currentSessionId st"
  "input (commit [addMessage cur u, SetInput [], SetLoading True, addMessage cur b]
       (fetch body st)) = []"
  "loading (commit [addMessage cur u, SetInput [], SetLoading True, addMessage cur b]
       (fetch body st)) = True"
  "requests (commit [addMessage cur u, SetInput [], SetLoading True, addMessage cur b]
       (fetch body st)) = requests st @ [body]"
  by (simp_all add: commit_def addMessage_def persist_effect_def fetch_def o_def del: requests_commit)

lemma id_m_botMsg: "id_m (botMsg now stamp) = toString (Suc now)"
  by (simp add: botMsg_def)

lemma requests_fetch [simp]: "requests (fetch body st) = requests st @ [body]"
  by (simp add: fetch_def)

lemma sendMessage_failure_trace:
  assumes "trim (input st) \<noteq> []" and "currentSessionId st = Some c" and "c \<noteq> []"
    and "await_answer res = Inl err"
  shows "sendMessage now1 stamp1 now2 stamp2 res st
    = [commit [addMessage (Some c) (userMsg now1 stamp1 (trim (input st))), SetInput [],
               SetLoading True, addMessage (Some c) (botMsg now2 stamp2)]
         (fetch (request_body (trim (input st))) st),
       commit [update_bot (Some c) (toString (now2 + 1))
                 (\<lambda>m. m\<lparr>text_m := error_text err, sources := Some []\<rparr>), SetLoading False]
         (commit [addMessage (Some c) (userMsg now1 stamp1 (trim (input st))), SetInput [],
               SetLoading True, addMessage (Some c) (botMsg now2 stamp2)]
         (fetch (request_body (trim (input st))) st))]"
  using assms by (simp add: sendMessage_def Let_def id_m_botMsg)




lemma toString_eq_iff [simp]: "toString a = toString b \<longleftrightarrow> a = b"
  by (auto dest: toString_inj)


lemma trim_h: "trim [0x68] = [0x68]"
  by (simp add: trim_def is_space_def)



section \<open>Facts about loading\<close>

lemma JSON_parse_print: "numfree j \<Longrightarrow> JSON_parse (print j) = Some j"
  using parse_print(1) [of j "2 * length (print j) + 2" "[]"]
  by (simp add: JSON_parse_def skip_ws_def)

lemma traverse_map:
  "(\<And>x. x \<in> set xs \<Longrightarrow> f (g x) = Some x) \<Longrightarrow> traverse f (map g xs) = Some xs"
  by (induction xs) simp_all

lemma traverse_as_string: "traverse as_string (map JString xs) = Some xs"
  by (induction xs) (simp_all add: as_string_def)

lemma decode_encode_message: "decode_message (encode_message m) = Some m"
  by (cases m; cases "time m"; cases "sources m"; cases "role m")
     (simp_all add: decode_message_def encode_message_def property_def required_def
        optional_def as_string_def as_strings_def as_role_def role_name_def
        traverse_as_string str_def)

lemma decode_encode_session: "decode_session (encode_session s) = Some s"
  by (cases s)
     (simp add: decode_session_def encode_session_def property_def required_def
        as_string_def as_messages_def traverse_map decode_encode_message str_def)

lemma decode_encode_sessions: "decode_sessions (encode_sessions ss) = Some ss"
  by (simp add: decode_sessions_def encode_sessions_def traverse_map decode_encode_session)

lemma numfree_elements_map: "(\<And>x. x \<in> set xs \<Longrightarrow> numfree (f x)) \<Longrightarrow> numfree_elements (map f xs)"
  by (induction xs) simp_all

lemma numfree_encode_message: "numfree (encode_message m)"
  by (cases "time m"; cases "sources m")
     (simp_all add: encode_message_def numfree_elements_map)

lemma numfree_encode_sessions: "numfree (encode_sessions ss)"
  by (simp add: encode_sessions_def encode_session_def numfree_elements_map
      numfree_encode_message)

lemma JSON_parse_stringify: "JSON_parse (JSON_stringify ss) = Some (encode_sessions ss)"
  by (simp add: JSON_stringify_def JSON_parse_print numfree_encode_sessions)

lemma JSON_stringify_not_Nil: "JSON_stringify ss \<noteq> []"
  by (cases ss) (simp_all add: JSON_stringify_def encode_sessions_def)




lemma key_initial: "localStorage (initial ls) k = ls k"
  by (simp add: initial_def)

lemma mount_loaded:
  assumes "ls STORAGE_SESSIONS_KEY = Some raw" and "raw \<noteq> []"
    and "JSON_parse raw = Some j" and "decode_sessions j = Some loaded"
  shows "mount ls
    = Done [persist_effect (initial ls),
            commit (SetSessions (\<lambda>_. loaded)
                    # (case loaded of [] \<Rightarrow> [] | s # _ \<Rightarrow> [SetCurrentSessionId (Some (id_s s))]))
              (persist_effect (initial ls))]"
  using assms by (simp add: mount_def load_effect_def key_initial Let_def)

lemma commit_loaded:
  "sessions (commit (SetSessions (\<lambda>_. loaded)
                    # (case loaded of [] \<Rightarrow> [] | s # _ \<Rightarrow> [SetCurrentSessionId (Some (id_s s))]))
              (persist_effect (initial ls))) = loaded"
  "currentSessionId (commit (SetSessions (\<lambda>_. loaded)
                    # (case loaded of [] \<Rightarrow> [] | s # _ \<Rightarrow> [SetCurrentSessionId (Some (id_s s))]))
              (persist_effect (initial ls)))
     = (case loaded of [] \<Rightarrow> None | s # _ \<Rightarrow> Some (id_s s))"
  by (cases loaded; simp add: commit_def persist_effect_def initial_def)+

lemma JSON_parse_brace: "JSON_parse [0x7B] = None"
  by (simp add: JSON_parse_def eval_nat_numeral skip_ws_def is_ws_def)

lemma find_map_same:
  "(\<And>x. P (f x) = P x) \<Longrightarrow> (\<And>x. P x \<Longrightarrow> f x = g x) \<Longrightarrow>
     find P (map f xs) = map_option g (find P xs)"
  by (induction xs) simp_all

lemma currentSession_addMessage_fold:
  "currentSession (fold (\<lambda>m s. commit [addMessage (currentSessionId s) m] s) msgs st)
     = map_option (\<lambda>s. s\<lparr>messages := messages s @ msgs\<rparr>) (currentSession st)"
  unfolding currentSession_def
  by (simp add: addMessage_fold) (rule find_map_same, simp_all)


lemma sendMessage_guard:
  "trim (input st) = [] \<or> currentSessionId st = None \<or> currentSessionId st = Some [] \<Longrightarrow>
     sendMessage now1 stamp1 now2 stamp2 res st = []
     \<and> step (SendMessage now1 stamp1 now2 stamp2 res) st = st"
  by (auto simp: sendMessage_def Let_def)

text \<open>
  A stored collection with the keys of its session in another order than the page writes
  them: \<open>[{"createdAt":"x","id":"1","messages":[]}]\<close>.
\<close>

lemma reordered:
  "print (JArray [JObject [(str ''createdAt'', JString (str ''x'')),
                           (str ''id'', JString (str ''1'')),
                           (str ''messages'', JArray [])]]) \<noteq> []"
  "JSON_parse (print (JArray [JObject [(str ''createdAt'', JString (str ''x'')),
                                       (str ''id'', JString (str ''1'')),
                                       (str ''messages'', JArray [])]]))
     = Some (JArray [JObject [(str ''createdAt'', JString (str ''x'')),
                              (str ''id'', JString (str ''1'')),
                              (str ''messages'', JArray [])]])"
  "decode_sessions (JArray [JObject [(str ''createdAt'', JString (str ''x'')),
                                     (str ''id'', JString (str ''1'')),
                                     (str ''messages'', JArray [])]])
     = Some [\<lparr>id_s = str ''1'', createdAt = str ''x'', messages = []\<rparr>]"
  by (simp_all add: JSON_parse_print decode_sessions_def decode_session_def property_def
      required_def as_string_def as_messages_def str_def del: print.simps)
     (simp add: quote_def)

section \<open>The session store\<close>

text \<open>
  C1. After \<open>clearAllSessions\<close> and the commit it triggers, the collection is empty and no
  session is active, but the storage entry is there again: the handler removes it, and the
  persist effect of the commit writes the serialised empty collection, \<open>[]\<close>, under the key.
\<close>

theorem clearAllSessions_entry:
  "sessions (clearAllSessions st) = [] \<and> currentSessionId (clearAllSessions st) = None
   \<and> localStorage (clearAllSessions st) STORAGE_SESSIONS_KEY = Some [0x5B, 0x5D]"
  by (simp add: clearAllSessions_def commit_def persist_effect_def removeItem_def
      JSON_stringify_Nil)

text \<open>
  C2. Two sessions are started at the clock readings 5 and 7; the second one is in front
  and active. Deleting it leaves the session 5 alone in the collection, and the active id
  still is 7, the id of the deleted session: \<open>sessions[0]\<close> is read from the collection
  of the render, in which the deleted session still is the first.
\<close>

theorem deleteSession_first_active:
  "map id_s (sessions (deleteSession (toString 7)
      (startNewSession 7 t2 (startNewSession 5 t1 (initial Map.empty))))) = [toString 5]
   \<and> currentSessionId (deleteSession (toString 7)
      (startNewSession 7 t2 (startNewSession 5 t1 (initial Map.empty)))) = Some (toString 7)"
  by (simp add: deleteSession_def startNewSession_def commit_def persist_effect_def
      initial_def Let_def toString_5 toString_7 digit_def)

text \<open>
  C6, as the claim states it: two sessions were started at the same clock reading and have
  the same id; the session the page shows is the first of them. One call of \<open>addMessage\<close>
  appends the message to the second session too.
\<close>

theorem addMessage_same_id:
  "currentSession (startNewSession 5 (str ''b'') (startNewSession 5 (str ''a'') (initial Map.empty)))
     = Some \<lparr>id_s = toString 5, createdAt = str ''b'', messages = []\<rparr>
   \<and> sessions (startNewSession 5 (str ''b'')
         (startNewSession 5 (str ''a'') (initial Map.empty))) ! 1
     = \<lparr>id_s = toString 5, createdAt = str ''a'', messages = []\<rparr>
   \<and> sessions
        (commit [addMessage (currentSessionId (startNewSession 5 (str ''b'')
                   (startNewSession 5 (str ''a'') (initial Map.empty)))) (botMsg 1 [])]
           (startNewSession 5 (str ''b'') (startNewSession 5 (str ''a'') (initial Map.empty)))) ! 1
     = \<lparr>id_s = toString 5, createdAt = str ''a'', messages = [botMsg 1 []]\<rparr>"
  by (simp add: currentSession_def startNewSession_def commit_def persist_effect_def
      initial_def addMessage_def Let_def)

text \<open>
  C6, amended. Messages are added one call after the other, each call from the render that
  follows the previous commit. The active id and the number of sessions stay as they are.
  Every session whose id is the active id, the session the page shows and any other with
  the same id, has the messages appended at the end of its list, in the order of the calls;
  a session with another id is unchanged. When the ids of the sessions are distinct, the
  session the page shows is the only one that changes. With no active id, no session
  changes.
\<close>

theorem addMessage_appends:
  "currentSessionId (fold (\<lambda>m s. commit [addMessage (currentSessionId s) m] s) msgs st)
     = currentSessionId st
   \<and> length (sessions (fold (\<lambda>m s. commit [addMessage (currentSessionId s) m] s) msgs st))
     = length (sessions st)
   \<and> (\<forall>i<length (sessions st).
        sessions (fold (\<lambda>m s. commit [addMessage (currentSessionId s) m] s) msgs st) ! i
          = (if currentSessionId st = Some (id_s (sessions st ! i))
             then (sessions st ! i)\<lparr>messages := messages (sessions st ! i) @ msgs\<rparr>
             else sessions st ! i))
   \<and> currentSession (fold (\<lambda>m s. commit [addMessage (currentSessionId s) m] s) msgs st)
     = map_option (\<lambda>s. s\<lparr>messages := messages s @ msgs\<rparr>) (currentSession st)
   \<and> (distinct (map id_s (sessions st)) \<longrightarrow>
        (\<forall>i<length (sessions st). \<forall>j<length (sessions st).
           currentSessionId st = Some (id_s (sessions st ! i)) \<longrightarrow> j \<noteq> i \<longrightarrow>
           sessions (fold (\<lambda>m s. commit [addMessage (currentSessionId s) m] s) msgs st) ! j
             = sessions st ! j))"
proof -
  have "id_s (sessions st ! j) \<noteq> id_s (sessions st ! i)"
    if "distinct (map id_s (sessions st))" "i < length (sessions st)"
      "j < length (sessions st)" "j \<noteq> i" for i j
    using that nth_eq_iff_index_eq [of "map id_s (sessions st)" j i] by simp
  then show ?thesis
    by (auto simp: addMessage_fold currentSession_addMessage_fold)
qed

theorem addMessage_appends_witness:
  "distinct (map id_s (sessions (startNewSession 7 [] (startNewSession 5 [] (initial Map.empty)))))
   \<and> currentSession (startNewSession 7 [] (startNewSession 5 [] (initial Map.empty)))
     = Some \<lparr>id_s = toString 7, createdAt = [], messages = []\<rparr>
   \<and> sessions
     (fold (\<lambda>m s. commit [addMessage (currentSessionId s) m] s)
        [userMsg 1 [] [0x68], botMsg 1 []]
        (startNewSession 7 [] (startNewSession 5 [] (initial Map.empty)))) ! 0
     = \<lparr>id_s = toString 7, createdAt = [], messages = [userMsg 1 [] [0x68], botMsg 1 []]\<rparr>
   \<and> sessions
     (fold (\<lambda>m s. commit [addMessage (currentSessionId s) m] s)
        [userMsg 1 [] [0x68], botMsg 1 []]
        (startNewSession 7 [] (startNewSession 5 [] (initial Map.empty)))) ! 1
     = \<lparr>id_s = toString 5, createdAt = [], messages = []\<rparr>
   \<and> currentSession
     (fold (\<lambda>m s. commit [addMessage (currentSessionId s) m] s)
        [userMsg 1 [] [0x68], botMsg 1 []]
        (startNewSession 7 [] (startNewSession 5 [] (initial Map.empty))))
     = Some \<lparr>id_s = toString 7, createdAt = [],
             messages = [userMsg 1 [] [0x68], botMsg 1 []]\<rparr>"
proof -
  have l: "sessions (startNewSession 7 [] (startNewSession 5 [] (initial Map.empty)))
           = [\<lparr>id_s = toString 7, createdAt = [], messages = []\<rparr>,
              \<lparr>id_s = toString 5, createdAt = [], messages = []\<rparr>]"
    and c: "currentSessionId (startNewSession 7 [] (startNewSession 5 [] (initial Map.empty)))
           = Some (toString 7)"
    by (simp_all add: startNewSession_def commit_def persist_effect_def initial_def Let_def)
  have cs: "currentSession (startNewSession 7 [] (startNewSession 5 [] (initial Map.empty)))
     = Some \<lparr>id_s = toString 7, createdAt = [], messages = []\<rparr>"
    by (simp add: currentSession_def l c)
  note t = addMessage_appends [of "[userMsg 1 [] [0x68], botMsg 1 []]"
      "startNewSession 7 [] (startNewSession 5 [] (initial Map.empty))"]
  note a = t [THEN conjunct2, THEN conjunct2, THEN conjunct1, rule_format]
  note b = t [THEN conjunct2, THEN conjunct2, THEN conjunct2, THEN conjunct1]
  note d = t [THEN conjunct2, THEN conjunct2, THEN conjunct2, THEN conjunct2, rule_format,
      of 0 1]
  have "(0::nat) < length (sessions (startNewSession 7 [] (startNewSession 5 [] (initial Map.empty))))"
    and "(1::nat) < length (sessions (startNewSession 7 [] (startNewSession 5 [] (initial Map.empty))))"
    by (simp_all add: l)
  then show ?thesis
    using a [of 0] d b by (simp add: l c cs)
qed

text \<open>
  C8, as the claim states it: a second session started at the same clock reading has
  the id of the first one.
\<close>

theorem startNewSession_same_clock:
  "map id_s (sessions (startNewSession 5 (str ''b'') (startNewSession 5 (str ''a'') (initial Map.empty))))
     = [toString 5, toString 5]"
  by (simp add: startNewSession_def commit_def persist_effect_def initial_def Let_def)

text \<open>
  C8, amended. The new session has the decimal digits of the clock reading as its id, the
  timestamp read and no message; it is put in front of the sessions there were, and its id
  becomes the active id. Two clock readings give the same id only when they are equal, and
  when no session of the collection has the new id, ids that were distinct stay distinct.
\<close>

theorem startNewSession_front:
  "sessions (startNewSession now stamp st)
     = \<lparr>id_s = toString now, createdAt = stamp, messages = []\<rparr> # sessions st
   \<and> currentSessionId (startNewSession now stamp st) = Some (toString now)
   \<and> (toString now = toString now' \<longleftrightarrow> now = now')
   \<and> (toString now \<notin> id_s ` set (sessions st) \<longrightarrow> distinct (map id_s (sessions st))
       \<longrightarrow> distinct (map id_s (sessions (startNewSession now stamp st))))"
  by (auto simp: startNewSession_def commit_def persist_effect_def Let_def dest: toString_inj)

theorem startNewSession_front_witness:
  "toString 7 \<notin> id_s ` set (sessions (startNewSession 5 [] (initial Map.empty)))
   \<and> distinct (map id_s (sessions (startNewSession 5 [] (initial Map.empty))))
   \<and> distinct (map id_s (sessions
        (startNewSession 7 [] (startNewSession 5 [] (initial Map.empty)))))"
proof -
  have l: "sessions (startNewSession 5 [] (initial Map.empty))
           = [\<lparr>id_s = toString 5, createdAt = [], messages = []\<rparr>]"
    by (simp add: startNewSession_def commit_def persist_effect_def initial_def Let_def)
  have n: "toString 7 \<noteq> toString 5"
    by (simp add: toString_5 toString_7)
  show ?thesis
    using startNewSession_front [of 7 "[]" "startNewSession 5 [] (initial Map.empty)" 7]
    by (simp add: l n)
qed

section \<open>The conversation controller\<close>

text \<open>
  C9. The page has mounted on an empty storage; a session is started at the clock reading 5
  and deleted again, and \<open>h\<close> is typed. The collection is empty and the page shows no
  session, but the active id still is 5 (see C2), so the guard of \<open>sendMessage\<close> lets the
  call pass: one request is sent, the input is cleared, and no message is kept.
\<close>

theorem sendMessage_dangling_id:
  "sessions (step (TypeInput [0x68]) (step (DeleteSession (toString 5))
      (step (StartNewSession 5 []) (persist_effect (initial Map.empty))))) = []
   \<and> currentSession (step (TypeInput [0x68]) (step (DeleteSession (toString 5))
      (step (StartNewSession 5 []) (persist_effect (initial Map.empty))))) = None
   \<and> currentSessionId (step (TypeInput [0x68]) (step (DeleteSession (toString 5))
      (step (StartNewSession 5 []) (persist_effect (initial Map.empty))))) = Some (toString 5)
   \<and> length (sendMessage 1 [] 2 [] (Rejected NonError)
        (step (TypeInput [0x68]) (step (DeleteSession (toString 5))
          (step (StartNewSession 5 []) (persist_effect (initial Map.empty)))))) = 2
   \<and> requests (last (sendMessage 1 [] 2 [] (Rejected NonError)
        (step (TypeInput [0x68]) (step (DeleteSession (toString 5))
          (step (StartNewSession 5 []) (persist_effect (initial Map.empty)))))))
       = [request_body [0x68]]
   \<and> input (last (sendMessage 1 [] 2 [] (Rejected NonError)
        (step (TypeInput [0x68]) (step (DeleteSession (toString 5))
          (step (StartNewSession 5 []) (persist_effect (initial Map.empty))))))) = []
   \<and> sessions (last (sendMessage 1 [] 2 [] (Rejected NonError)
        (step (TypeInput [0x68]) (step (DeleteSession (toString 5))
          (step (StartNewSession 5 []) (persist_effect (initial Map.empty))))))) = []"
proof -
  let ?st = "step (TypeInput [0x68]) (step (DeleteSession (toString 5))
      (step (StartNewSession 5 []) (persist_effect (initial Map.empty))))"
  have s: "sessions ?st = []" and c: "currentSessionId ?st = Some (toString 5)"
    and i: "input ?st = [0x68]" and r: "requests ?st = []"
    by (simp_all add: startNewSession_def deleteSession_def commit_def persist_effect_def
        initial_def Let_def toString_not_Nil)
  have h1: "trim (input ?st) \<noteq> []" by (simp only: i trim_h) simp
  have h3: "toString 5 \<noteq> []" by (rule toString_not_Nil)
  have h4: "await_answer (Rejected NonError) = Inl NonError" by (simp add: await_answer_def)
  note t = sendMessage_failure_trace [OF h1 c h3 h4, of 1 "[]" 2 "[]"]
  have "currentSession ?st = None" unfolding currentSession_def s by simp
  moreover have "length (sendMessage 1 [] 2 [] (Rejected NonError) ?st) = 2"
    and "requests (last (sendMessage 1 [] 2 [] (Rejected NonError) ?st)) = [request_body [0x68]]"
    and "input (last (sendMessage 1 [] 2 [] (Rejected NonError) ?st)) = []"
    and "sessions (last (sendMessage 1 [] 2 [] (Rejected NonError) ?st)) = []"
    unfolding t i trim_h
    by (simp_all add: commit_update_bot_final sendMessage_first s r map_bot_def
        del: step.simps)
  ultimately show ?thesis using s c by (simp del: step.simps)
qed





section \<open>Persistence\<close>




text \<open>
  C3, as the claim states it: with \<open>{\<close> stored under the key, the load effect does not
  start the page with an empty collection in silence; the SyntaxError of \<open>JSON.parse\<close>
  leaves it.
\<close>

theorem mount_unparseable:
  "mount [STORAGE_SESSIONS_KEY \<mapsto> [0x7B]]
     = Threw_SyntaxError (initial [STORAGE_SESSIONS_KEY \<mapsto> [0x7B]])"
  by (simp add: mount_def load_effect_def key_initial JSON_parse_def eval_nat_numeral
      skip_ws_def is_ws_def)

text \<open>
  C3, amended. With no entry under the key, or the empty string, the component starts with
  the empty collection and no active session. When the stored string parses to a value of
  the declared type \<open>ChatSession[]\<close>, whatever the order of the keys of its objects and
  whatever further properties they have, the first commit shows the empty collection and
  the second one the parsed collection, with its first session active, or none when it is
  empty. When the stored string cannot be parsed, \<open>JSON.parse\<close> throws, and the effect has
  no handler: the SyntaxError leaves it and nothing is installed. A parsed value that is
  not of the declared type is passed to \<open>setSessions\<close> unchecked.
\<close>

theorem load_sessions_cases:
  "(ls STORAGE_SESSIONS_KEY = None \<or> ls STORAGE_SESSIONS_KEY = Some [] \<longrightarrow>
      mount ls = Done [persist_effect (initial ls)]
      \<and> sessions (persist_effect (initial ls)) = []
      \<and> currentSessionId (persist_effect (initial ls)) = None)
   \<and> (ls STORAGE_SESSIONS_KEY = Some raw \<and> raw \<noteq> [] \<and> JSON_parse raw = Some j
       \<and> decode_sessions j = Some loaded \<longrightarrow>
      (\<exists>st1 st2. mount ls = Done [st1, st2]
         \<and> sessions st1 = [] \<and> currentSessionId st1 = None
         \<and> sessions st2 = loaded
         \<and> currentSessionId st2 = (case loaded of [] \<Rightarrow> None | s # _ \<Rightarrow> Some (id_s s))))
   \<and> (ls STORAGE_SESSIONS_KEY = Some raw \<and> raw \<noteq> [] \<and> JSON_parse raw = None \<longrightarrow>
      mount ls = Threw_SyntaxError (initial ls)
      \<and> sessions (initial ls) = [] \<and> currentSessionId (initial ls) = None
      \<and> localStorage (initial ls) = ls)
   \<and> (ls STORAGE_SESSIONS_KEY = Some raw \<and> raw \<noteq> [] \<and> JSON_parse raw = Some j
       \<and> decode_sessions j = None \<longrightarrow>
      mount ls = Untyped j)"
proof (intro conjI impI)
  assume "ls STORAGE_SESSIONS_KEY = None \<or> ls STORAGE_SESSIONS_KEY = Some []"
  then show "mount ls = Done [persist_effect (initial ls)]"
    by (auto simp: mount_def load_effect_def key_initial)
next
  show "sessions (persist_effect (initial ls)) = []"
    and "currentSessionId (persist_effect (initial ls)) = None"
    by (simp_all add: persist_effect_def initial_def)
next
  assume a: "ls STORAGE_SESSIONS_KEY = Some raw \<and> raw \<noteq> [] \<and> JSON_parse raw = Some j
       \<and> decode_sessions j = Some loaded"
  then have "mount ls
    = Done [persist_effect (initial ls),
            commit (SetSessions (\<lambda>_. loaded)
                    # (case loaded of [] \<Rightarrow> [] | s # _ \<Rightarrow> [SetCurrentSessionId (Some (id_s s))]))
              (persist_effect (initial ls))]"
    by (intro mount_loaded [of ls raw j loaded]) simp_all
  then show "\<exists>st1 st2. mount ls = Done [st1, st2]
         \<and> sessions st1 = [] \<and> currentSessionId st1 = None
         \<and> sessions st2 = loaded
         \<and> currentSessionId st2 = (case loaded of [] \<Rightarrow> None | s # _ \<Rightarrow> Some (id_s s))"
    by (simp add: commit_loaded) (simp add: persist_effect_def initial_def)
next
  assume "ls STORAGE_SESSIONS_KEY = Some raw \<and> raw \<noteq> [] \<and> JSON_parse raw = None"
  then show "mount ls = Threw_SyntaxError (initial ls)"
    by (simp add: mount_def load_effect_def key_initial)
next
  show "sessions (initial ls) = []" and "currentSessionId (initial ls) = None"
    and "localStorage (initial ls) = ls"
    by (simp_all add: initial_def)
next
  assume "ls STORAGE_SESSIONS_KEY = Some raw \<and> raw \<noteq> [] \<and> JSON_parse raw = Some j
       \<and> decode_sessions j = None"
  then show "mount ls = Untyped j"
    by (simp add: mount_def load_effect_def key_initial)
qed

theorem load_sessions_cases_witness:
  "mount Map.empty = Done [persist_effect (initial Map.empty)]
   \<and> JSON_parse (print (JArray [JObject [(str ''createdAt'', JString (str ''x'')),
                                         (str ''id'', JString (str ''1'')),
                                         (str ''messages'', JArray [])]]))
       = Some (JArray [JObject [(str ''createdAt'', JString (str ''x'')),
                                (str ''id'', JString (str ''1'')),
                                (str ''messages'', JArray [])]])
   \<and> decode_sessions (JArray [JObject [(str ''createdAt'', JString (str ''x'')),
                                       (str ''id'', JString (str ''1'')),
                                       (str ''messages'', JArray [])]])
       = Some [\<lparr>id_s = str ''1'', createdAt = str ''x'', messages = []\<rparr>]
   \<and> (\<exists>st1 st2.
         mount [STORAGE_SESSIONS_KEY \<mapsto>
                  print (JArray [JObject [(str ''createdAt'', JString (str ''x'')),
                                          (str ''id'', JString (str ''1'')),
                                          (str ''messages'', JArray [])]])]
           = Done [st1, st2]
         \<and> sessions st1 = [] \<and> currentSessionId st1 = None
         \<and> sessions st2 = [\<lparr>id_s = str ''1'', createdAt = str ''x'', messages = []\<rparr>]
         \<and> currentSessionId st2 = Some (str ''1''))
   \<and> JSON_parse [0x7B] = None
   \<and> mount [STORAGE_SESSIONS_KEY \<mapsto> [0x7B]]
       = Threw_SyntaxError (initial [STORAGE_SESSIONS_KEY \<mapsto> [0x7B]])
   \<and> JSON_parse (print (JArray [JNull])) = Some (JArray [JNull])
   \<and> decode_sessions (JArray [JNull]) = None
   \<and> mount [STORAGE_SESSIONS_KEY \<mapsto> print (JArray [JNull])] = Untyped (JArray [JNull])"
proof -
  let ?j = "JArray [JObject [(str ''createdAt'', JString (str ''x'')),
                             (str ''id'', JString (str ''1'')),
                             (str ''messages'', JArray [])]]"
  note [simp del] = print.simps
  have a: "mount Map.empty = Done [persist_effect (initial Map.empty)]"
    using load_sessions_cases [of Map.empty, THEN conjunct1] by simp
  have b: "\<exists>st1 st2. mount [STORAGE_SESSIONS_KEY \<mapsto> print ?j] = Done [st1, st2]
         \<and> sessions st1 = [] \<and> currentSessionId st1 = None
         \<and> sessions st2 = [\<lparr>id_s = str ''1'', createdAt = str ''x'', messages = []\<rparr>]
         \<and> currentSessionId st2 = Some (str ''1'')"
    using load_sessions_cases [of "[STORAGE_SESSIONS_KEY \<mapsto> print ?j]" "print ?j" ?j
        "[\<lparr>id_s = str ''1'', createdAt = str ''x'', messages = []\<rparr>]",
        THEN conjunct2, THEN conjunct1]
    by (simp add: reordered)
  have c: "mount [STORAGE_SESSIONS_KEY \<mapsto> [0x7B]]
       = Threw_SyntaxError (initial [STORAGE_SESSIONS_KEY \<mapsto> [0x7B]])"
    using load_sessions_cases [of "[STORAGE_SESSIONS_KEY \<mapsto> [0x7B]]" "[0x7B]",
        THEN conjunct2, THEN conjunct2, THEN conjunct1]
    by (simp add: JSON_parse_brace)
  have n: "JSON_parse (print (JArray [JNull])) = Some (JArray [JNull])"
    "decode_sessions (JArray [JNull]) = None" "print (JArray [JNull]) \<noteq> []"
    by (simp_all add: JSON_parse_print decode_sessions_def decode_session_def)
      (simp add: print.simps)
  have d: "mount [STORAGE_SESSIONS_KEY \<mapsto> print (JArray [JNull])] = Untyped (JArray [JNull])"
    using load_sessions_cases [of "[STORAGE_SESSIONS_KEY \<mapsto> print (JArray [JNull])]"
        "print (JArray [JNull])" "JArray [JNull]",
        THEN conjunct2, THEN conjunct2, THEN conjunct2]
    by (simp add: n)
  from a b c d show ?thesis
    by (simp add: reordered JSON_parse_brace n)
qed

text \<open>
  C7. The persist effect stores the serialisation of a non-empty collection, which is not
  the empty string, parses to the value that was serialised and is recognised as the
  collection. A component that mounts on that storage ends, after its second commit, with
  the same collection: the same sessions in the same order, with the same ids, timestamps
  and messages; its first session is active.
\<close>

theorem persist_then_load:
  "sessions st \<noteq> [] \<Longrightarrow>
     JSON_stringify (sessions st) \<noteq> []
     \<and> localStorage (persist_effect st) STORAGE_SESSIONS_KEY = Some (JSON_stringify (sessions st))
     \<and> JSON_parse (JSON_stringify (sessions st)) = Some (encode_sessions (sessions st))
     \<and> decode_sessions (encode_sessions (sessions st)) = Some (sessions st)
     \<and> (\<exists>st1 st2. mount (localStorage (persist_effect st)) = Done [st1, st2]
          \<and> sessions st2 = sessions st
          \<and> currentSessionId st2 = Some (id_s (sessions st ! 0)))"
proof -
  assume ne: "sessions st \<noteq> []"
  have k: "localStorage (persist_effect st) STORAGE_SESSIONS_KEY
           = Some (JSON_stringify (sessions st))"
    by (simp add: persist_effect_def)
  from ne have c: "(case sessions st of [] \<Rightarrow> None | s # _ \<Rightarrow> Some (id_s s))
                  = Some (id_s (sessions st ! 0))"
    by (cases "sessions st") simp_all
  have "mount (localStorage (persist_effect st))
    = Done [persist_effect (initial (localStorage (persist_effect st))),
            commit (SetSessions (\<lambda>_. sessions st)
                    # (case sessions st of [] \<Rightarrow> []
                       | s # _ \<Rightarrow> [SetCurrentSessionId (Some (id_s s))]))
              (persist_effect (initial (localStorage (persist_effect st))))]"
    by (rule mount_loaded [of "localStorage (persist_effect st)", OF k
          JSON_stringify_not_Nil [of "sessions st"]
          JSON_parse_stringify [of "sessions st"] decode_encode_sessions [of "sessions st"]])
  then have "\<exists>st1 st2. mount (localStorage (persist_effect st)) = Done [st1, st2]
          \<and> sessions st2 = sessions st
          \<and> currentSessionId st2 = Some (id_s (sessions st ! 0))"
    by (simp add: commit_loaded c)
  with k show ?thesis
    by (simp add: JSON_stringify_not_Nil JSON_parse_stringify decode_encode_sessions)
qed

theorem persist_then_load_witness:
  "sessions ((initial Map.empty)
       \<lparr>sessions := [\<lparr>id_s = toString 5, createdAt = [],
                      messages = [userMsg 1 [] [0x22, 0x0A, 0xD800], botMsg 1 []]\<rparr>]\<rparr>) \<noteq> []
   \<and> (\<exists>st1 st2.
         mount (localStorage (persist_effect ((initial Map.empty)
           \<lparr>sessions := [\<lparr>id_s = toString 5, createdAt = [],
                      messages = [userMsg 1 [] [0x22, 0x0A, 0xD800], botMsg 1 []]\<rparr>]\<rparr>)))
           = Done [st1, st2]
         \<and> sessions st2
             = [\<lparr>id_s = toString 5, createdAt = [],
                 messages = [userMsg 1 [] [0x22, 0x0A, 0xD800], botMsg 1 []]\<rparr>]
         \<and> currentSessionId st2 = Some (toString 5))"
proof -
  let ?st = "(initial Map.empty)
       \<lparr>sessions := [\<lparr>id_s = toString 5, createdAt = [],
                      messages = [userMsg 1 [] [0x22, 0x0A, 0xD800], botMsg 1 []]\<rparr>]\<rparr>"
  have h: "sessions ?st \<noteq> []" by simp
  from persist_then_load [OF h] h show ?thesis by simp
qed

end
